theory Spec2Isabelle
  imports Main
begin

section \<open>Values, errors and the configuration record\<close>

text \<open>
  A Python \<^verbatim>\<open>str\<close> is a sequence of code points, so it is a list of numbers (each below
  \<^verbatim>\<open>0x110000\<close>); the surrogate code points \<^verbatim>\<open>0xD800\<close> to \<^verbatim>\<open>0xDFFF\<close> may occur in it.
  \<open>py\<close> gives the \<^verbatim>\<open>str\<close> of a literal of the source.
\<close>

type_synonym pystr = "nat list"

definition py :: "string \<Rightarrow> pystr" where
  "py s = map of_char s"

text \<open>
  The values that \<^verbatim>\<open>json.load\<close> hands to the program. An object is the list of its
  items in insertion order (a Python dict, so the keys of a decoded object are distinct);
  \<^verbatim>\<open>dict.get\<close> is a lookup in that list. \<open>JNum\<close> stands for any number that
  \<^verbatim>\<open>json.load\<close> produces; the program never inspects its payload.
\<close>

datatype json =
    JNull
  | JBool bool
  | JNum int
  | JStr pystr
  | JArr "json list"
  | JObj "(pystr \<times> json) list"

text \<open>The exceptions that the modelled code can raise, and how a call ends.\<close>

datatype error =
    JSONDecodeError
  | UnicodeDecodeError
  | UnicodeEncodeError
  | RecursionError
  | AttributeError
  | TypeError
  | KeyError pystr
  | IndexError
  | ValueError

datatype outcome = Returned | Raised error

text \<open>
  The two dataclasses. Python does not check the annotated field types, and
  \<^verbatim>\<open>load\<close> stores whatever value the file holds, so the fields carry values.
\<close>

record ShortcutItem =
  title :: json
  description :: json

record AppConfig =
  hotkey :: json
  shortcuts :: "ShortcutItem list"

section \<open>The persisted file\<close>

text \<open>
  A path either names no file or names a file. What the program learns of a file's bytes
  is what \<^verbatim>\<open>json.load\<close> on a UTF-8 handle makes of them: it decodes them to a value
  (\<open>Encodes v\<close>) or it raises (\<open>Rejected e\<close>): \<^verbatim>\<open>JSONDecodeError\<close> for text that is not
  JSON, \<^verbatim>\<open>UnicodeDecodeError\<close> for bytes that are not UTF-8, \<^verbatim>\<open>ValueError\<close> for an
  integer literal beyond the digit limit, \<^verbatim>\<open>RecursionError\<close> for nesting that is too
  deep. Opening a file is taken to succeed.
\<close>

datatype file_text = Rejected error | Encodes json

type_synonym path = string
type_synonym fs = "path \<rightharpoonup> file_text"

definition default_hotkey :: json where
  "default_hotkey = JStr (py ''ctrl+shift+s'')"

text \<open>\<^verbatim>\<open>d.get(k, default)\<close> on a decoded object.\<close>

definition dict_get :: "(pystr \<times> json) list \<Rightarrow> pystr \<Rightarrow> json \<Rightarrow> json" where
  "dict_get kvs k d = (case map_of kvs k of None \<Rightarrow> d | Some v \<Rightarrow> v)"

text \<open>
  \<^verbatim>\<open>for item in v\<close>: a list yields its elements, a string its characters, a dict its
  keys; nothing else is iterable.
\<close>

fun iterate :: "json \<Rightarrow> error + json list" where
  "iterate (JArr xs) = Inr xs"
| "iterate (JStr s) = Inr (map (\<lambda>c. JStr [c]) s)"
| "iterate (JObj kvs) = Inr (map (\<lambda>kv. JStr (fst kv)) kvs)"
| "iterate _ = Inl TypeError"

text \<open>
  \<^verbatim>\<open>ShortcutItem(title=item["title"], description=item["description"])\<close>: a string key
  subscripts a dict only, and a missing key raises.
\<close>

fun item_of :: "json \<Rightarrow> error + ShortcutItem" where
  "item_of (JObj kvs) =
     (case map_of kvs (py ''title'') of
        None \<Rightarrow> Inl (KeyError (py ''title''))
      | Some t \<Rightarrow>
          (case map_of kvs (py ''description'') of
             None \<Rightarrow> Inl (KeyError (py ''description''))
           | Some d \<Rightarrow> Inr \<lparr>title = t, description = d\<rparr>))"
| "item_of _ = Inl TypeError"

text \<open>The list comprehension of \<^verbatim>\<open>load\<close>: the first item that raises ends it.\<close>

fun items_of :: "json list \<Rightarrow> error + ShortcutItem list" where
  "items_of [] = Inr []"
| "items_of (x # xs) =
     (case item_of x of
        Inl e \<Rightarrow> Inl e
      | Inr i \<Rightarrow> (case items_of xs of Inl e \<Rightarrow> Inl e | Inr is \<Rightarrow> Inr (i # is)))"

text \<open>\<^verbatim>\<open>ConfigManager.load\<close>; \<^verbatim>\<open>data.get\<close> exists on a dict only.\<close>

definition load_data :: "json \<Rightarrow> error + AppConfig" where
  "load_data data =
     (case data of
        JObj kvs \<Rightarrow>
          (case iterate (dict_get kvs (py ''shortcuts'') (JArr [])) of
             Inl e \<Rightarrow> Inl e
           | Inr xs \<Rightarrow>
               (case items_of xs of
                  Inl e \<Rightarrow> Inl e
                | Inr is \<Rightarrow>
                    Inr \<lparr>hotkey = dict_get kvs (py ''hotkey'') (JStr (py ''ctrl+shift+s'')),
                         shortcuts = is\<rparr>))
      | _ \<Rightarrow> Inl AttributeError)"

definition ConfigManager_load :: "fs \<Rightarrow> path \<Rightarrow> error + AppConfig" where
  "ConfigManager_load files p =
     (case files p of
        None \<Rightarrow>
          Inr \<lparr>hotkey = default_hotkey,
               shortcuts =
                 [\<lparr>title = JStr (py ''Win+E''), description = JStr (py ''Open File Explorer'')\<rparr>,
                  \<lparr>title = JStr (py ''Win+L''), description = JStr (py ''Lock the PC'')\<rparr>]\<rparr>
      | Some (Rejected e) \<Rightarrow> Inl e
      | Some (Encodes data) \<Rightarrow> load_data data)"

text \<open>
  What \<^verbatim>\<open>json.dump\<close> can write to a UTF-8 handle with \<^verbatim>\<open>ensure_ascii=False\<close>: the
  code points beyond ASCII of every string of the value, keys included, go to the file
  unescaped, and UTF-8 has no encoding for a surrogate code point. Values are taken to
  nest no deeper than \<^verbatim>\<open>json.dump\<close> can follow.
\<close>

definition surrogate :: "nat \<Rightarrow> bool" where
  "surrogate c = (55296 \<le> c \<and> c \<le> 57343)"

definition utf8_encodable :: "pystr \<Rightarrow> bool" where
  "utf8_encodable s = list_all (\<lambda>c. \<not> surrogate c) s"

fun dumpable :: "json \<Rightarrow> bool"
  and dumpable_list :: "json list \<Rightarrow> bool"
  and dumpable_items :: "(pystr \<times> json) list \<Rightarrow> bool" where
  "dumpable (JStr s) = utf8_encodable s"
| "dumpable (JArr xs) = dumpable_list xs"
| "dumpable (JObj kvs) = dumpable_items kvs"
| "dumpable JNull = True"
| "dumpable (JBool b) = True"
| "dumpable (JNum n) = True"
| "dumpable_list [] = True"
| "dumpable_list (x # xs) = (dumpable x \<and> dumpable_list xs)"
| "dumpable_items [] = True"
| "dumpable_items (kv # kvs) =
     (utf8_encodable (fst kv) \<and> dumpable (snd kv) \<and> dumpable_items kvs)"

text \<open>
  \<^verbatim>\<open>ConfigManager.save\<close>: build the payload, open the file for writing, which empties
  it, and dump the payload. \<^verbatim>\<open>json.dump\<close> writes the text piece by piece; a piece that
  cannot be encoded raises \<^verbatim>\<open>UnicodeEncodeError\<close> and the file keeps the pieces written
  before it, an unfinished text that \<^verbatim>\<open>json.load\<close> rejects. Otherwise the file holds
  a text that decodes to the payload.
\<close>

definition item_payload :: "ShortcutItem \<Rightarrow> json" where
  "item_payload item = JObj [(py ''title'', title item), (py ''description'', description item)]"

definition payload :: "AppConfig \<Rightarrow> json" where
  "payload config =
     JObj [(py ''hotkey'', hotkey config),
           (py ''shortcuts'', JArr (map item_payload (shortcuts config)))]"

definition ConfigManager_save :: "fs \<Rightarrow> path \<Rightarrow> AppConfig \<Rightarrow> outcome \<times> fs" where
  "ConfigManager_save files p config =
     (if dumpable (payload config) then (Returned, files(p \<mapsto> Encodes (payload config)))
      else (Raised UnicodeEncodeError, files(p \<mapsto> Rejected JSONDecodeError)))"

text \<open>A configuration whose fields hold strings, as the dataclasses annotate them.\<close>

definition str_item :: "pystr \<times> pystr \<Rightarrow> ShortcutItem" where
  "str_item td = \<lparr>title = JStr (fst td), description = JStr (snd td)\<rparr>"

definition str_config :: "pystr \<Rightarrow> (pystr \<times> pystr) list \<Rightarrow> AppConfig" where
  "str_config h entries = \<lparr>hotkey = JStr h, shortcuts = map str_item entries\<rparr>"

definition utf8_entry :: "pystr \<times> pystr \<Rightarrow> bool" where
  "utf8_entry td = (utf8_encodable (fst td) \<and> utf8_encodable (snd td))"

text \<open>
  \<^verbatim>\<open>str.strip()\<close>: the code points for which \<^verbatim>\<open>str.isspace\<close> holds are removed from
  both ends.
\<close>

definition isspace :: "nat \<Rightarrow> bool" where
  "isspace c =
     (c \<in> {9, 10, 11, 12, 13, 28, 29, 30, 31, 32, 133, 160, 5760, 8232, 8233, 8239, 8287, 12288}
      \<or> (8192 \<le> c \<and> c \<le> 8202))"

definition strip :: "pystr \<Rightarrow> pystr" where
  "strip s = rev (dropWhile isspace (rev (dropWhile isspace s)))"

section \<open>The keyboard library\<close>

text \<open>
  The library keeps the installed hotkeys; each is the parsed form of the text given to
  \<^verbatim>\<open>add_hotkey\<close> (steps of keys of scan codes). The parser and its table of key
  names belong to the library, so the parser is a parameter: \<open>None\<close> is the
  \<^verbatim>\<open>ValueError\<close> of a text it does not accept. Every hotkey this program installs
  carries the same callback, the display toggle.
\<close>

type_synonym combo = "nat list list list"
type_synonym parser = "json \<Rightarrow> combo option"

definition unhook_all :: "combo list \<Rightarrow> combo list" where
  "unhook_all hs = []"

definition add_hotkey :: "parser \<Rightarrow> json \<Rightarrow> combo list \<Rightarrow> error + combo list" where
  "add_hotkey parse h hs = (case parse h of None \<Rightarrow> Inl ValueError | Some c \<Rightarrow> Inr (hs @ [c]))"

section \<open>Windows, tables and prompts\<close>

datatype wm_state = Normal | Iconic | Withdrawn

text \<open>
  A table widget: its rows in display order and the indices of the selected rows, first
  selected first. Deleting a row removes it from the selection.
\<close>

record Treeview =
  rows :: "(json \<times> json) list"
  selected :: "nat list"

datatype prompt = ShowError string string | ShowInfo string string

definition tree_delete_children :: "Treeview \<Rightarrow> Treeview" where
  "tree_delete_children tree = \<lparr>rows = [], selected = []\<rparr>"

definition tree_insert_end :: "Treeview \<Rightarrow> json \<times> json \<Rightarrow> Treeview" where
  "tree_insert_end tree vals = tree\<lparr>rows := rows tree @ [vals]\<rparr>"

fun tree_insert_all :: "ShortcutItem list \<Rightarrow> Treeview \<Rightarrow> Treeview" where
  "tree_insert_all [] tree = tree"
| "tree_insert_all (s # ss) tree =
     tree_insert_all ss (tree_insert_end tree (title s, description s))"

text \<open>The body shared by both \<^verbatim>\<open>refresh\<close> methods.\<close>

definition tree_refresh :: "ShortcutItem list \<Rightarrow> Treeview \<Rightarrow> Treeview" where
  "tree_refresh ss tree = tree_insert_all ss (tree_delete_children tree)"

section \<open>The application state\<close>

text \<open>
  The configuration is one object that the application, the overlay and the settings
  window all hold a reference to and that is changed in place, so it lives in a store.
  The state also carries what the methods act on beyond their own object: the disk, the
  hotkeys installed in the keyboard library, and the prompts shown so far.
\<close>

type_synonym ref = nat

record ShortcutOverlay =
  ov_config :: ref
  ov_window :: wm_state
  ov_tree :: Treeview

record SettingsWindow =
  sw_config :: ref
  sw_window :: wm_state
  sw_tree :: Treeview

record ShortcutApp =
  heap :: "ref \<Rightarrow> AppConfig"
  config :: ref
  config_manager :: path
  overlay :: ShortcutOverlay
  settings_window :: SettingsWindow
  disk :: fs
  hooks :: "combo list"
  prompts :: "prompt list"
  destroyed :: bool

subsection \<open>ShortcutOverlay\<close>

definition ShortcutOverlay_refresh :: "ShortcutApp \<Rightarrow> ShortcutApp" where
  "ShortcutOverlay_refresh st =
     st\<lparr>overlay := (overlay st)
          \<lparr>ov_tree := tree_refresh (shortcuts (heap st (ov_config (overlay st))))
                        (ov_tree (overlay st))\<rparr>\<rparr>"

definition ShortcutOverlay_show :: "ShortcutApp \<Rightarrow> ShortcutApp" where
  "ShortcutOverlay_show st =
     (let st1 = ShortcutOverlay_refresh st
      in st1\<lparr>overlay := (overlay st1)\<lparr>ov_window := Normal\<rparr>\<rparr>)"

definition ShortcutOverlay_hide :: "ShortcutApp \<Rightarrow> ShortcutApp" where
  "ShortcutOverlay_hide st = st\<lparr>overlay := (overlay st)\<lparr>ov_window := Withdrawn\<rparr>\<rparr>"

definition ShortcutOverlay_toggle :: "ShortcutApp \<Rightarrow> ShortcutApp" where
  "ShortcutOverlay_toggle st =
     (if ov_window (overlay st) = Withdrawn then ShortcutOverlay_show st
      else ShortcutOverlay_hide st)"

definition visible :: "ShortcutApp \<Rightarrow> bool" where
  "visible st = (ov_window (overlay st) \<noteq> Withdrawn)"

subsection \<open>ShortcutApp: saving and the hotkey\<close>

definition ShortcutApp_register_hotkey :: "parser \<Rightarrow> ShortcutApp \<Rightarrow> outcome \<times> ShortcutApp" where
  "ShortcutApp_register_hotkey parse st =
     (let st1 = st\<lparr>hooks := unhook_all (hooks st)\<rparr>
      in case add_hotkey parse (hotkey (heap st1 (config st1))) (hooks st1) of
           Inl e \<Rightarrow> (Raised e, st1)
         | Inr hs \<Rightarrow> (Returned, st1\<lparr>hooks := hs\<rparr>))"

definition ShortcutApp_on_save :: "parser \<Rightarrow> ShortcutApp \<Rightarrow> outcome \<times> ShortcutApp" where
  "ShortcutApp_on_save parse st =
     (case ConfigManager_save (disk st) (config_manager st) (heap st (config st)) of
        (Raised e, files) \<Rightarrow> (Raised e, st\<lparr>disk := files\<rparr>)
      | (Returned, files) \<Rightarrow> ShortcutApp_register_hotkey parse (st\<lparr>disk := files\<rparr>))"

definition ShortcutApp_toggle :: "ShortcutApp \<Rightarrow> ShortcutApp" where
  "ShortcutApp_toggle st = ShortcutOverlay_toggle st"

definition ShortcutApp_show_overlay :: "ShortcutApp \<Rightarrow> ShortcutApp" where
  "ShortcutApp_show_overlay st = ShortcutOverlay_show st"

definition ShortcutApp_on_close :: "ShortcutApp \<Rightarrow> ShortcutApp" where
  "ShortcutApp_on_close st = st\<lparr>hooks := unhook_all (hooks st), destroyed := True\<rparr>"

subsection \<open>SettingsWindow\<close>

definition SettingsWindow_refresh :: "ShortcutApp \<Rightarrow> ShortcutApp" where
  "SettingsWindow_refresh st =
     st\<lparr>settings_window := (settings_window st)
          \<lparr>sw_tree := tree_refresh (shortcuts (heap st (sw_config (settings_window st))))
                        (sw_tree (settings_window st))\<rparr>\<rparr>"

text \<open>Assigning to \<^verbatim>\<open>self.config.shortcuts\<close> of the settings window's object.\<close>

definition set_shortcuts :: "ShortcutItem list \<Rightarrow> ShortcutApp \<Rightarrow> ShortcutApp" where
  "set_shortcuts ss st =
     (let r = sw_config (settings_window st)
      in st\<lparr>heap := (heap st)(r := (heap st r)\<lparr>shortcuts := ss\<rparr>)\<rparr>)"

definition show_prompt :: "prompt \<Rightarrow> ShortcutApp \<Rightarrow> ShortcutApp" where
  "show_prompt m st = st\<lparr>prompts := prompts st @ [m]\<rparr>"

text \<open>
  The two arguments are the answers of the two \<^verbatim>\<open>askstring\<close> dialogs, \<open>None\<close> for a
  cancelled one; the second dialog opens only after a non-empty first answer.
\<close>

definition SettingsWindow_add_item ::
    "pystr option \<Rightarrow> pystr option \<Rightarrow> ShortcutApp \<Rightarrow> ShortcutApp" where
  "SettingsWindow_add_item title_answer description_answer st =
     (case title_answer of
        None \<Rightarrow> st
      | Some t \<Rightarrow>
          if t = [] then st
          else
            (case description_answer of
               None \<Rightarrow> st
             | Some d \<Rightarrow>
                 SettingsWindow_refresh
                   (set_shortcuts
                      (shortcuts (heap st (sw_config (settings_window st)))
                         @ [\<lparr>title = JStr t, description = JStr d\<rparr>])
                      st)))"

definition SettingsWindow_edit_item ::
    "pystr option \<Rightarrow> pystr option \<Rightarrow> ShortcutApp \<Rightarrow> outcome \<times> ShortcutApp" where
  "SettingsWindow_edit_item title_answer description_answer st =
     (case selected (sw_tree (settings_window st)) of
        [] \<Rightarrow> (Returned, show_prompt (ShowInfo ''Select'' ''Please select a shortcut to edit.'') st)
      | index # _ \<Rightarrow>
          (let ss = shortcuts (heap st (sw_config (settings_window st)))
           in if \<not> index < length ss then (Raised IndexError, st)
              else
                (case title_answer of
                   None \<Rightarrow> (Returned, st)
                 | Some t \<Rightarrow>
                     if t = [] then (Returned, st)
                     else
                       (case description_answer of
                          None \<Rightarrow> (Returned, st)
                        | Some d \<Rightarrow>
                            (Returned,
                             SettingsWindow_refresh
                               (set_shortcuts
                                  (ss[index := \<lparr>title = JStr t, description = JStr d\<rparr>]) st))))))"

definition SettingsWindow_remove_item :: "ShortcutApp \<Rightarrow> outcome \<times> ShortcutApp" where
  "SettingsWindow_remove_item st =
     (case selected (sw_tree (settings_window st)) of
        [] \<Rightarrow>
          (Returned, show_prompt (ShowInfo ''Select'' ''Please select a shortcut to remove.'') st)
      | index # _ \<Rightarrow>
          (let ss = shortcuts (heap st (sw_config (settings_window st)))
           in if \<not> index < length ss then (Raised IndexError, st)
              else (Returned,
                    SettingsWindow_refresh
                      (set_shortcuts (take index ss @ drop (Suc index) ss) st))))"

text \<open>
  \<open>entry\<close> is the text of the hotkey field when the button is pressed. \<^verbatim>\<open>self.on_save\<close>
  is the application's \<^verbatim>\<open>on_save\<close>, handed over when the window is built.
\<close>

definition SettingsWindow_save :: "parser \<Rightarrow> pystr \<Rightarrow> ShortcutApp \<Rightarrow> outcome \<times> ShortcutApp" where
  "SettingsWindow_save parse entry st =
     (let hk = strip entry
      in if hk = [] then
           (Returned, show_prompt (ShowError ''Hotkey'' ''Please enter a valid hotkey.'') st)
         else
           (let r = sw_config (settings_window st);
                st1 = st\<lparr>heap := (heap st)(r := (heap st r)\<lparr>hotkey := JStr hk\<rparr>)\<rparr>
            in case ShortcutApp_on_save parse st1 of
                 (Raised e, st2) \<Rightarrow> (Raised e, st2)
               | (Returned, st2) \<Rightarrow>
                   (Returned,
                    show_prompt (ShowInfo ''Saved'' ''Settings saved. New hotkey is active now.'')
                      st2)))"

subsection \<open>Start-up and the event loop\<close>

definition ShortcutApp_open_settings :: "ShortcutApp \<Rightarrow> ShortcutApp" where
  "ShortcutApp_open_settings st =
     (let st1 = SettingsWindow_refresh st
      in st1\<lparr>settings_window := (settings_window st1)\<lparr>sw_window := Normal\<rparr>\<rparr>)"

text \<open>
  \<^verbatim>\<open>ShortcutApp.__init__\<close>: the loaded configuration becomes the object at address \<open>r\<close>
  of the store \<open>h\<close>; the overlay starts withdrawn with an empty table, the settings window
  is built with its table filled and is then withdrawn, and the hotkey is registered.
\<close>

definition ShortcutApp_init ::
    "parser \<Rightarrow> fs \<Rightarrow> combo list \<Rightarrow> (ref \<Rightarrow> AppConfig) \<Rightarrow> ref \<Rightarrow> path \<Rightarrow> error + ShortcutApp" where
  "ShortcutApp_init parse files hs h r p =
     (case ConfigManager_load files p of
        Inl e \<Rightarrow> Inl e
      | Inr c \<Rightarrow>
          (let st0 =
                 \<lparr>heap = h(r := c), config = r, config_manager = p,
                  overlay = \<lparr>ov_config = r, ov_window = Withdrawn,
                             ov_tree = \<lparr>rows = [], selected = []\<rparr>\<rparr>,
                  settings_window = \<lparr>sw_config = r, sw_window = Normal,
                                     sw_tree = \<lparr>rows = [], selected = []\<rparr>\<rparr>,
                  disk = files, hooks = hs, prompts = [], destroyed = False\<rparr>;
               st1 = SettingsWindow_refresh st0;
               st2 = st1\<lparr>settings_window := (settings_window st1)\<lparr>sw_window := Withdrawn\<rparr>\<rparr>
           in case ShortcutApp_register_hotkey parse st2 of
                (Raised e, _) \<Rightarrow> Inl e
              | (Returned, st3) \<Rightarrow> Inr st3))"

text \<open>
  What the user can do while the event loop runs: the buttons and window controls wired
  to the methods above, a selection in the settings table (only rows that exist can be
  selected), and a key combination, which runs the toggle once for each installed hotkey
  it matches. An exception raised by a handler is reported and the loop goes on with the
  state as the handler left it. After the root window is destroyed nothing is handled.
\<close>

datatype event =
    AddPressed "pystr option" "pystr option"
  | EditPressed "pystr option" "pystr option"
  | RemovePressed
  | RowsSelected "nat list"
  | SavePressed pystr
  | SettingsPressed
  | SettingsClosed
  | ShowPressed
  | HidePressed
  | KeysPressed combo
  | RootClosed

fun run_toggles :: "combo list \<Rightarrow> ShortcutApp \<Rightarrow> ShortcutApp" where
  "run_toggles [] st = st"
| "run_toggles (c # cs) st = run_toggles cs (ShortcutApp_toggle st)"

definition select_rows :: "nat list \<Rightarrow> ShortcutApp \<Rightarrow> ShortcutApp" where
  "select_rows idxs st =
     st\<lparr>settings_window := (settings_window st)
          \<lparr>sw_tree := (sw_tree (settings_window st))
             \<lparr>selected := filter (\<lambda>i. i < length (rows (sw_tree (settings_window st)))) idxs\<rparr>\<rparr>\<rparr>"

fun handle :: "parser \<Rightarrow> event \<Rightarrow> ShortcutApp \<Rightarrow> outcome \<times> ShortcutApp" where
  "handle parse (AddPressed t d) st = (Returned, SettingsWindow_add_item t d st)"
| "handle parse (EditPressed t d) st = SettingsWindow_edit_item t d st"
| "handle parse RemovePressed st = SettingsWindow_remove_item st"
| "handle parse (RowsSelected idxs) st = (Returned, select_rows idxs st)"
| "handle parse (SavePressed entry) st = SettingsWindow_save parse entry st"
| "handle parse SettingsPressed st = (Returned, ShortcutApp_open_settings st)"
| "handle parse SettingsClosed st =
     (Returned, st\<lparr>settings_window := (settings_window st)\<lparr>sw_window := Withdrawn\<rparr>\<rparr>)"
| "handle parse ShowPressed st = (Returned, ShortcutApp_show_overlay st)"
| "handle parse HidePressed st = (Returned, ShortcutOverlay_hide st)"
| "handle parse (KeysPressed c) st = (Returned, run_toggles (filter (\<lambda>h. h = c) (hooks st)) st)"
| "handle parse RootClosed st = (Returned, ShortcutApp_on_close st)"

definition step :: "parser \<Rightarrow> event \<Rightarrow> ShortcutApp \<Rightarrow> outcome \<times> ShortcutApp" where
  "step parse e st = (if destroyed st then (Returned, st) else handle parse e st)"

inductive reachable :: "parser \<Rightarrow> ShortcutApp \<Rightarrow> bool" for parse :: parser where
  started: "ShortcutApp_init parse files hs h r p = Inr st \<Longrightarrow> reachable parse st"
| handled: "reachable parse st \<Longrightarrow> step parse e st = (out, st') \<Longrightarrow> reachable parse st'"

text \<open>
  The structure the persisted file is meant to have: an object whose
  \<^verbatim>\<open>shortcuts\<close> field, when present, is a list of objects that each carry a title and a
  description.
\<close>

definition structured_item :: "json \<Rightarrow> bool" where
  "structured_item j =
     (case j of
        JObj kvs \<Rightarrow> map_of kvs (py ''title'') \<noteq> None \<and> map_of kvs (py ''description'') \<noteq> None
      | _ \<Rightarrow> False)"

definition structured :: "json \<Rightarrow> bool" where
  "structured data =
     (case data of
        JObj kvs \<Rightarrow>
          (case map_of kvs (py ''shortcuts'') of
             None \<Rightarrow> True
           | Some (JArr xs) \<Rightarrow> list_all structured_item xs
           | Some _ \<Rightarrow> False)
      | _ \<Rightarrow> False)"



section \<open>Auxiliary notions for the properties\<close>

text \<open>The row that \<^verbatim>\<open>refresh\<close> inserts for an entry.\<close>

definition row_of :: "ShortcutItem \<Rightarrow> json \<times> json" where
  "row_of s = (title s, description s)"

text \<open>
  What holds of the application from start-up on: the overlay and the settings window hold
  the application's configuration object, the settings table lists the entries of that
  object, every selected row exists, and at most one hotkey is installed.
\<close>

definition consistent :: "ShortcutApp \<Rightarrow> bool" where
  "consistent st =
     (ov_config (overlay st) = config st \<and>
      sw_config (settings_window st) = config st \<and>
      rows (sw_tree (settings_window st)) = map row_of (shortcuts (heap st (config st))) \<and>
      list_all (\<lambda>i. i < length (shortcuts (heap st (config st))))
        (selected (sw_tree (settings_window st))) \<and>
      length (hooks st) \<le> 1)"

text \<open>
  A sample run: a key table that knows two combinations, and the state in which the
  application starts when no file exists.
\<close>

definition sample_parser :: parser where
  "sample_parser j =
     (if j = JStr (py ''ctrl+shift+s'') then Some [[[29], [42], [31]]]
      else if j = JStr (py ''ctrl+alt+k'') then Some [[[29], [56], [37]]]
      else None)"

definition sample_app :: ShortcutApp where
  "sample_app =
     \<lparr>heap = (\<lambda>_. \<lparr>hotkey = JNull, shortcuts = []\<rparr>)
               (0 := \<lparr>hotkey = JStr (py ''ctrl+shift+s''),
                      shortcuts =
                        [\<lparr>title = JStr (py ''Win+E''), description = JStr (py ''Open File Explorer'')\<rparr>,
                         \<lparr>title = JStr (py ''Win+L''), description = JStr (py ''Lock the PC'')\<rparr>]\<rparr>),
      config = 0, config_manager = ''config.json'',
      overlay = \<lparr>ov_config = 0, ov_window = Withdrawn, ov_tree = \<lparr>rows = [], selected = []\<rparr>\<rparr>,
      settings_window =
        \<lparr>sw_config = 0, sw_window = Withdrawn,
         sw_tree = \<lparr>rows = [(JStr (py ''Win+E''), JStr (py ''Open File Explorer'')),
                           (JStr (py ''Win+L''), JStr (py ''Lock the PC''))],
                   selected = []\<rparr>\<rparr>,
      disk = Map.empty, hooks = [[[[29], [42], [31]]]], prompts = [], destroyed = False\<rparr>"

section \<open>Literals\<close>

lemma py_eq_iff [simp]: "py s = py t \<longleftrightarrow> s = t"
proof -
  have "inj (of_char :: char \<Rightarrow> nat)" by (rule injI) simp
  then show ?thesis by (auto simp: py_def dest: inj_mapD [THEN injD])
qed

lemma py_eq_Nil [simp]: "py s = [] \<longleftrightarrow> s = []"
  by (simp add: py_def)

lemma of_char_no_surrogate: "\<not> surrogate (of_char c)"
proof -
  have "(of_char c :: nat) mod 256 < 256" by (rule mod_less_divisor) simp
  then have "(of_char c :: nat) < 256" by (simp only: of_char_mod_256)
  then show ?thesis unfolding surrogate_def by arith
qed

lemma utf8_encodable_py [simp]: "utf8_encodable (py s)"
  by (induction s) (simp_all add: utf8_encodable_def py_def of_char_no_surrogate)

section \<open>Persistence: properties\<close>

lemma item_of_item_payload: "item_of (item_payload i) = Inr i"
  by (simp add: item_payload_def)

lemma items_of_item_payload: "items_of (map item_payload is) = Inr is"
  by (induction "is") (simp_all add: item_of_item_payload)

lemma load_data_payload: "load_data (payload c) = Inr c"
  by (simp add: load_data_def payload_def dict_get_def items_of_item_payload)

lemma dumpable_list_str_items:
  "dumpable_list (map (item_payload \<circ> str_item) entries) = list_all utf8_entry entries"
  by (induction entries) (simp_all add: item_payload_def str_item_def utf8_entry_def)

lemma dumpable_str_config:
  "dumpable (payload (str_config h entries)) = (utf8_encodable h \<and> list_all utf8_entry entries)"
  by (simp add: payload_def str_config_def dumpable_list_str_items)

text \<open>
  C1, as stated, fails: a hotkey string that holds a surrogate code point, such as load
  itself returns for the file text \<^verbatim>\<open>{"hotkey": "\ud800"}\<close>, makes save raise, and the
  file it leaves makes load raise.
\<close>

theorem save_surrogate_counterexample:
  "ConfigManager_save Map.empty ''config.json'' (str_config [55296] [])
     = (Raised UnicodeEncodeError, [''config.json'' \<mapsto> Rejected JSONDecodeError]) \<and>
   ConfigManager_load
       (snd (ConfigManager_save Map.empty ''config.json'' (str_config [55296] [])))
       ''config.json''
     = Inl JSONDecodeError"
  by (simp add: ConfigManager_save_def ConfigManager_load_def dumpable_str_config
      utf8_encodable_def surrogate_def)

text \<open>
  C1, amended. Saving a configuration whose hotkey, titles and descriptions are strings
  without surrogate code points returns, and loading from the same path then returns that
  configuration: the same hotkey and the same entries in the same order.
\<close>

theorem save_load_roundtrip:
  "utf8_encodable h \<Longrightarrow> list_all utf8_entry entries \<Longrightarrow>
     fst (ConfigManager_save files p (str_config h entries)) = Returned \<and>
     ConfigManager_load (snd (ConfigManager_save files p (str_config h entries))) p
       = Inr (str_config h entries)"
  by (simp add: ConfigManager_load_def ConfigManager_save_def load_data_payload
      dumpable_str_config)

theorem save_load_roundtrip_witness:
  "utf8_encodable [99, 116, 114, 108, 43, 8364] \<and>
   list_all utf8_entry [(py ''Win+E'', [25991, 20214, 128193]), ([], [])] \<and>
   fst (ConfigManager_save Map.empty ''config.json''
          (str_config [99, 116, 114, 108, 43, 8364]
             [(py ''Win+E'', [25991, 20214, 128193]), ([], [])])) = Returned \<and>
   ConfigManager_load
       (snd (ConfigManager_save Map.empty ''config.json''
          (str_config [99, 116, 114, 108, 43, 8364]
             [(py ''Win+E'', [25991, 20214, 128193]), ([], [])])))
       ''config.json''
     = Inr (str_config [99, 116, 114, 108, 43, 8364]
             [(py ''Win+E'', [25991, 20214, 128193]), ([], [])])"
proof -
  have h: "utf8_encodable [99, 116, 114, 108, 43, 8364]"
    by (simp add: utf8_encodable_def surrogate_def)
  have d: "utf8_encodable [25991, 20214, 128193]" and n: "utf8_encodable []"
    by (simp_all add: utf8_encodable_def surrogate_def)
  have es: "list_all utf8_entry [(py ''Win+E'', [25991, 20214, 128193]), ([], [])]"
    by (simp add: utf8_entry_def d n)
  from save_load_roundtrip [OF h es, of Map.empty "''config.json''"] h es
  show ?thesis by simp
qed

text \<open>
  C2. Loading when the file does not exist returns the hotkey \<^verbatim>\<open>ctrl+shift+s\<close> and exactly
  the two seeded entries, in their order.
\<close>

theorem load_missing_default:
  "files p = None \<Longrightarrow>
     ConfigManager_load files p
       = Inr (str_config (py ''ctrl+shift+s'')
                [(py ''Win+E'', py ''Open File Explorer''), (py ''Win+L'', py ''Lock the PC'')])"
  by (simp add: ConfigManager_load_def str_config_def str_item_def default_hotkey_def)

theorem load_missing_default_witness:
  "Map.empty ''config.json'' = None \<and>
   ConfigManager_load Map.empty ''config.json''
     = Inr (str_config (py ''ctrl+shift+s'')
              [(py ''Win+E'', py ''Open File Explorer''), (py ''Win+L'', py ''Lock the PC'')])"
  using load_missing_default [of Map.empty "''config.json''"] by simp


lemma item_of_structured: "structured_item x \<Longrightarrow> \<exists>i. item_of x = Inr i"
  by (cases x) (auto simp: structured_item_def)

lemma items_of_structured: "list_all structured_item xs \<Longrightarrow> \<exists>is. items_of xs = Inr is"
proof (induction xs)
  case Nil
  show ?case by simp
next
  case (Cons x xs)
  from Cons.prems have "structured_item x" and "list_all structured_item xs" by simp_all
  from Cons.IH [OF this(2)] obtain "is" where rest: "items_of xs = Inr is" by blast
  from item_of_structured [OF \<open>structured_item x\<close>] obtain i where "item_of x = Inr i" by blast
  with rest show ?case by simp
qed

lemma load_data_structured: "structured data \<Longrightarrow> \<exists>c. load_data data = Inr c"
proof (cases data)
  case (JObj kvs)
  assume s: "structured data"
  show ?thesis
  proof (cases "map_of kvs (py ''shortcuts'')")
    case None
    with JObj show ?thesis by (simp add: load_data_def dict_get_def)
  next
    case (Some v)
    with s JObj obtain xs where v: "v = JArr xs" and all: "list_all structured_item xs"
      by (cases v) (auto simp: structured_def)
    from items_of_structured [OF all] obtain "is" where "items_of xs = Inr is" by blast
    with JObj Some v show ?thesis by (simp add: load_data_def dict_get_def)
  qed
qed (simp_all add: structured_def)










text \<open>
  C10. For a file that parses to an object: without a \<^verbatim>\<open>shortcuts\<close> field load returns
  an empty entry list (with the file's hotkey, or the default one), not the two seeded
  entries; without a \<^verbatim>\<open>hotkey\<close> field every configuration load returns has the
  hotkey \<^verbatim>\<open>ctrl+shift+s\<close>.
\<close>

theorem load_absent_fields:
  "files p = Some (Encodes (JObj kvs)) \<Longrightarrow>
     (map_of kvs (py ''shortcuts'') = None \<longrightarrow>
        ConfigManager_load files p
          = Inr \<lparr>hotkey = dict_get kvs (py ''hotkey'') (JStr (py ''ctrl+shift+s'')), shortcuts = []\<rparr>) \<and>
     (map_of kvs (py ''hotkey'') = None \<longrightarrow>
        (\<forall>c. ConfigManager_load files p = Inr c \<longrightarrow> hotkey c = JStr (py ''ctrl+shift+s'')))"
  by (auto simp: ConfigManager_load_def load_data_def dict_get_def split: sum.splits)

theorem load_absent_fields_witness:
  "ConfigManager_load [''config.json'' \<mapsto> Encodes (JObj [(py ''hotkey'', JStr (py ''ctrl+alt+k''))])]
       ''config.json''
     = Inr \<lparr>hotkey = JStr (py ''ctrl+alt+k''), shortcuts = []\<rparr> \<and>
   ConfigManager_load [''config.json'' \<mapsto> Encodes (JObj [(py ''shortcuts'',
          JArr [JObj [(py ''title'', JStr (py ''Win+D'')), (py ''description'', JStr (py ''Desktop''))]])])]
       ''config.json''
     = Inr \<lparr>hotkey = JStr (py ''ctrl+shift+s''),
            shortcuts = [\<lparr>title = JStr (py ''Win+D''), description = JStr (py ''Desktop'')\<rparr>]\<rparr> \<and>
   hotkey \<lparr>hotkey = JStr (py ''ctrl+shift+s''),
            shortcuts = [\<lparr>title = JStr (py ''Win+D''), description = JStr (py ''Desktop'')\<rparr>]\<rparr>
     = JStr (py ''ctrl+shift+s'')"
proof -
  let ?f1 = "[''config.json'' \<mapsto> Encodes (JObj [(py ''hotkey'', JStr (py ''ctrl+alt+k''))])]"
  let ?kvs2 = "[(py ''shortcuts'',
          JArr [JObj [(py ''title'', JStr (py ''Win+D'')), (py ''description'', JStr (py ''Desktop''))]])]"
  let ?f2 = "[''config.json'' \<mapsto> Encodes (JObj ?kvs2)]"
  have l2: "ConfigManager_load ?f2 ''config.json''
     = Inr \<lparr>hotkey = JStr (py ''ctrl+shift+s''),
            shortcuts = [\<lparr>title = JStr (py ''Win+D''), description = JStr (py ''Desktop'')\<rparr>]\<rparr>"
    by (simp add: ConfigManager_load_def load_data_def dict_get_def)
  have a: "?f1 ''config.json'' = Some (Encodes (JObj [(py ''hotkey'', JStr (py ''ctrl+alt+k''))]))" by simp
  have b: "?f2 ''config.json'' = Some (Encodes (JObj ?kvs2))" by simp
  from load_absent_fields [of ?f1 "''config.json''", OF a]
    load_absent_fields [of ?f2 "''config.json''", OF b] l2
  show ?thesis by (simp add: dict_get_def)
qed

section \<open>The running application: invariant\<close>

lemma tree_insert_all_rows:
  "rows (tree_insert_all ss tree) = rows tree @ map row_of ss"
  by (induction ss arbitrary: tree) (simp_all add: tree_insert_end_def row_of_def)

lemma tree_insert_all_selected:
  "selected (tree_insert_all ss tree) = selected tree"
  by (induction ss arbitrary: tree) (simp_all add: tree_insert_end_def)

lemma tree_refresh_rows: "rows (tree_refresh ss tree) = map row_of ss"
  by (simp add: tree_refresh_def tree_insert_all_rows tree_delete_children_def)

lemma tree_refresh_selected: "selected (tree_refresh ss tree) = []"
  by (simp add: tree_refresh_def tree_insert_all_selected tree_delete_children_def)

lemma sample_started:
  "ShortcutApp_init sample_parser Map.empty [] (\<lambda>_. \<lparr>hotkey = JNull, shortcuts = []\<rparr>) 0
     ''config.json'' = Inr sample_app"
  by (simp add: ShortcutApp_init_def ConfigManager_load_def default_hotkey_def
      SettingsWindow_refresh_def tree_refresh_def tree_delete_children_def tree_insert_end_def
      ShortcutApp_register_hotkey_def unhook_all_def add_hotkey_def sample_parser_def
      sample_app_def Let_def)

lemma sample_reachable: "reachable sample_parser sample_app"
  using sample_started by (rule reachable.started)

lemmas tree_simps = tree_refresh_rows tree_refresh_selected

lemma consistent_overlay_show: "consistent st \<Longrightarrow> consistent (ShortcutOverlay_show st)"
  by (simp add: consistent_def ShortcutOverlay_show_def ShortcutOverlay_refresh_def Let_def)

lemma consistent_overlay_hide: "consistent st \<Longrightarrow> consistent (ShortcutOverlay_hide st)"
  by (simp add: consistent_def ShortcutOverlay_hide_def)

lemma consistent_toggle: "consistent st \<Longrightarrow> consistent (ShortcutApp_toggle st)"
  by (simp add: ShortcutApp_toggle_def ShortcutOverlay_toggle_def consistent_overlay_show
      consistent_overlay_hide)

lemma consistent_run_toggles: "consistent st \<Longrightarrow> consistent (run_toggles cs st)"
  by (induction cs arbitrary: st) (simp_all add: consistent_toggle)

lemma consistent_refresh_set_shortcuts:
  "consistent st \<Longrightarrow> consistent (SettingsWindow_refresh (set_shortcuts ss st))"
  by (simp add: consistent_def SettingsWindow_refresh_def set_shortcuts_def Let_def tree_simps)

lemma consistent_show_prompt: "consistent st \<Longrightarrow> consistent (show_prompt m st)"
  by (simp add: consistent_def show_prompt_def)

lemma consistent_add_item: "consistent st \<Longrightarrow> consistent (SettingsWindow_add_item t d st)"
  by (simp add: SettingsWindow_add_item_def consistent_refresh_set_shortcuts
      split: option.splits)

lemma consistent_edit_item:
  "consistent st \<Longrightarrow> consistent (snd (SettingsWindow_edit_item t d st))"
  by (simp add: SettingsWindow_edit_item_def consistent_refresh_set_shortcuts
      consistent_show_prompt Let_def split: option.splits list.splits)

lemma consistent_remove_item:
  "consistent st \<Longrightarrow> consistent (snd (SettingsWindow_remove_item st))"
  by (simp add: SettingsWindow_remove_item_def consistent_refresh_set_shortcuts
      consistent_show_prompt Let_def split: list.splits)

lemma consistent_select_rows: "consistent st \<Longrightarrow> consistent (select_rows idxs st)"
  by (simp add: consistent_def select_rows_def list_all_iff)

lemma register_hotkey_hooks:
  "hooks (snd (ShortcutApp_register_hotkey parse st))
     = (case parse (hotkey (heap st (config st))) of None \<Rightarrow> [] | Some c \<Rightarrow> [c])"
  by (simp add: ShortcutApp_register_hotkey_def unhook_all_def add_hotkey_def Let_def
      split: option.splits)

lemma register_hotkey_rest:
  "ShortcutApp_register_hotkey parse st = (out, st') \<Longrightarrow>
     heap st' = heap st \<and> config st' = config st \<and> config_manager st' = config_manager st \<and>
     overlay st' = overlay st \<and> settings_window st' = settings_window st \<and>
     disk st' = disk st \<and> prompts st' = prompts st \<and> destroyed st' = destroyed st"
  by (auto simp: ShortcutApp_register_hotkey_def unhook_all_def add_hotkey_def Let_def
      split: option.splits)

lemma consistent_register_hotkey:
  assumes "consistent st"
  shows "consistent (snd (ShortcutApp_register_hotkey parse st))"
proof -
  obtain out st' where r: "ShortcutApp_register_hotkey parse st = (out, st')"
    by (cases "ShortcutApp_register_hotkey parse st")
  from register_hotkey_hooks [of parse st] r have "length (hooks st') \<le> 1"
    by (simp split: option.splits)
  with register_hotkey_rest [OF r] assms r show ?thesis
    by (simp add: consistent_def)
qed

lemma consistent_on_save:
  "consistent st \<Longrightarrow> consistent (snd (ShortcutApp_on_save parse st))"
proof -
  assume c: "consistent st"
  obtain out files where
    s: "ConfigManager_save (disk st) (config_manager st) (heap st (config st)) = (out, files)"
    by (cases "ConfigManager_save (disk st) (config_manager st) (heap st (config st))")
  from c have c1: "consistent (st\<lparr>disk := files\<rparr>)" by (simp add: consistent_def)
  show ?thesis
  proof (cases out)
    case Returned
    with s consistent_register_hotkey [OF c1, of parse] show ?thesis
      by (simp add: ShortcutApp_on_save_def)
  next
    case (Raised e)
    with s c1 show ?thesis by (simp add: ShortcutApp_on_save_def)
  qed
qed

lemma consistent_set_hotkey:
  "consistent st \<Longrightarrow>
     consistent (st\<lparr>heap := (heap st)
        (sw_config (settings_window st) :=
           (heap st (sw_config (settings_window st)))\<lparr>hotkey := h\<rparr>)\<rparr>)"
  by (simp add: consistent_def)

lemma consistent_save:
  assumes "consistent st"
  shows "consistent (snd (SettingsWindow_save parse entry st))"
proof (cases "strip entry = []")
  case True
  with assms show ?thesis
    by (simp add: SettingsWindow_save_def consistent_show_prompt)
next
  case False
  let ?st1 = "st\<lparr>heap := (heap st)
        (sw_config (settings_window st) :=
           (heap st (sw_config (settings_window st)))\<lparr>hotkey := JStr (strip entry)\<rparr>)\<rparr>"
  have "consistent (snd (ShortcutApp_on_save parse ?st1))"
    using assms by (intro consistent_on_save consistent_set_hotkey)
  with False show ?thesis
    by (auto simp: SettingsWindow_save_def Let_def consistent_show_prompt
        split: prod.splits outcome.splits)
qed

lemma consistent_open_settings: "consistent st \<Longrightarrow> consistent (ShortcutApp_open_settings st)"
  by (simp add: consistent_def ShortcutApp_open_settings_def SettingsWindow_refresh_def
      Let_def tree_simps)

lemma consistent_on_close: "consistent st \<Longrightarrow> consistent (ShortcutApp_on_close st)"
  by (simp add: consistent_def ShortcutApp_on_close_def unhook_all_def)

lemma consistent_handle: "consistent st \<Longrightarrow> consistent (snd (handle parse e st))"
proof (cases e)
  case (KeysPressed c)
  assume "consistent st"
  then show ?thesis using KeysPressed by (simp add: consistent_run_toggles)
next
  case SettingsClosed
  assume "consistent st"
  then show ?thesis using SettingsClosed by (simp add: consistent_def)
qed (simp_all add: consistent_add_item consistent_edit_item consistent_remove_item
    consistent_select_rows consistent_save consistent_open_settings
    ShortcutApp_show_overlay_def consistent_overlay_show consistent_overlay_hide
    consistent_on_close)

lemma consistent_step: "consistent st \<Longrightarrow> consistent (snd (step parse e st))"
  by (simp add: step_def consistent_handle)

lemma consistent_init:
  assumes "ShortcutApp_init parse files hs h r p = Inr st"
  shows "consistent st"
proof -
  from assms obtain c where l: "ConfigManager_load files p = Inr c"
    by (auto simp: ShortcutApp_init_def split: sum.splits)
  let ?st0 = "\<lparr>heap = h(r := c), config = r, config_manager = p,
                  overlay = \<lparr>ov_config = r, ov_window = Withdrawn,
                             ov_tree = \<lparr>rows = [], selected = []\<rparr>\<rparr>,
                  settings_window = \<lparr>sw_config = r, sw_window = Normal,
                                     sw_tree = \<lparr>rows = [], selected = []\<rparr>\<rparr>,
                  disk = files, hooks = hs, prompts = [], destroyed = False\<rparr>"
  let ?st1 = "SettingsWindow_refresh ?st0"
  let ?st2 = "?st1\<lparr>settings_window := (settings_window ?st1)\<lparr>sw_window := Withdrawn\<rparr>\<rparr>"
  have c2: "consistent (?st2\<lparr>hooks := []\<rparr>)"
    by (simp add: consistent_def SettingsWindow_refresh_def tree_simps)
  have "snd (ShortcutApp_register_hotkey parse (?st2\<lparr>hooks := []\<rparr>))
          = snd (ShortcutApp_register_hotkey parse ?st2)"
    by (simp add: ShortcutApp_register_hotkey_def unhook_all_def Let_def)
  with consistent_register_hotkey [OF c2, of parse]
  have "consistent (snd (ShortcutApp_register_hotkey parse ?st2))" by simp
  moreover from assms l have "snd (ShortcutApp_register_hotkey parse ?st2) = st"
    by (auto simp: ShortcutApp_init_def Let_def split: prod.splits outcome.splits)
  ultimately show ?thesis by simp
qed

lemma reachable_consistent: "reachable parse st \<Longrightarrow> consistent st"
proof (induction rule: reachable.induct)
  case (started files hs h r p st)
  then show ?case by (rule consistent_init)
next
  case (handled st e out st')
  from consistent_step [OF handled.IH, of parse e] handled.hyps(2) show ?case by simp
qed

section \<open>The running application: properties\<close>

text \<open>
  C4. When the hotkey entered is empty after stripping whitespace, the settings window's
  save only shows the error prompt: it returns with the prompt added, the configuration
  object (so its hotkey) unchanged, the disk unchanged and the installed hotkeys unchanged.
\<close>

theorem save_empty_hotkey_rejected:
  "strip entry = [] \<Longrightarrow>
     (let st' = show_prompt (ShowError ''Hotkey'' ''Please enter a valid hotkey.'') st
      in SettingsWindow_save parse entry st = (Returned, st') \<and>
         prompts st' = prompts st @ [ShowError ''Hotkey'' ''Please enter a valid hotkey.''] \<and>
         heap st' = heap st \<and> disk st' = disk st \<and> hooks st' = hooks st)"
  by (simp add: SettingsWindow_save_def show_prompt_def)

theorem save_empty_hotkey_rejected_witness:
  "strip (py ''  '') = [] \<and>
   SettingsWindow_save sample_parser (py ''  '') sample_app
     = (Returned, sample_app\<lparr>prompts := [ShowError ''Hotkey'' ''Please enter a valid hotkey.'']\<rparr>) \<and>
   hotkey (heap sample_app 0) = JStr (py ''ctrl+shift+s'')"
  using save_empty_hotkey_rejected [of "(py ''  '')" sample_app sample_parser]
  by (simp add: py_def strip_def isspace_def show_prompt_def sample_app_def)

text \<open>
  C8. Toggle shows the overlay when it is withdrawn and withdraws it otherwise, so it
  inverts visibility, and two toggles leave visibility as it was.
\<close>

theorem toggle_flips_visibility:
  "ov_window (overlay (ShortcutOverlay_toggle st))
     = (if ov_window (overlay st) = Withdrawn then Normal else Withdrawn) \<and>
   visible (ShortcutOverlay_toggle st) = (\<not> visible st) \<and>
   visible (ShortcutOverlay_toggle (ShortcutOverlay_toggle st)) = visible st"
  by (simp add: ShortcutOverlay_toggle_def ShortcutOverlay_show_def ShortcutOverlay_hide_def
      ShortcutOverlay_refresh_def visible_def Let_def)

theorem toggle_flips_visibility_witness:
  "ov_window (overlay (ShortcutOverlay_toggle sample_app)) = Normal \<and>
   ov_window (overlay (ShortcutOverlay_toggle (ShortcutOverlay_toggle sample_app))) = Withdrawn \<and>
   visible (ShortcutOverlay_toggle sample_app) \<and>
   \<not> visible (ShortcutOverlay_toggle (ShortcutOverlay_toggle sample_app))"
  using toggle_flips_visibility [of sample_app]
    toggle_flips_visibility [of "ShortcutOverlay_toggle sample_app"]
  by (simp add: sample_app_def visible_def)

text \<open>
  C7. Removing with a selected row whose index is valid returns without error and deletes
  exactly that entry: the list is one shorter and the other entries keep their order. In
  particular, removing the only entry leaves the empty list.
\<close>

theorem remove_item_deletes_selected:
  assumes "selected (sw_tree (settings_window st)) = i # rest"
    and "i < length (shortcuts (heap st (sw_config (settings_window st))))"
  shows "let r = sw_config (settings_window st);
             ss = shortcuts (heap st r);
             st' = snd (SettingsWindow_remove_item st)
         in fst (SettingsWindow_remove_item st) = Returned \<and>
            shortcuts (heap st' r) = take i ss @ drop (Suc i) ss \<and>
            Suc (length (shortcuts (heap st' r))) = length ss \<and>
            (\<forall>e. ss = [e] \<longrightarrow> shortcuts (heap st' r) = [])"
  using assms
  by (auto simp: SettingsWindow_remove_item_def SettingsWindow_refresh_def set_shortcuts_def
      Let_def)

text \<open>While the application runs, a selected row always has a valid index.\<close>

lemma reachable_selection_valid:
  assumes "reachable parse st" and "selected (sw_tree (settings_window st)) = i # rest"
  shows "i < length (shortcuts (heap st (sw_config (settings_window st))))"
  using reachable_consistent [OF assms(1)] assms(2) by (simp add: consistent_def)

text \<open>
  C6. In every state of the running application, an add that is given a non-empty title
  and a description appends the new entry to the list: the length grows by one, the earlier
  entries are unchanged, and when the overlay is shown next its table lists the earlier
  entries followed by the new one.
\<close>

theorem add_item_appends:
  assumes "reachable parse st" and "t \<noteq> []"
  shows "let ss = shortcuts (heap st (config st));
             st' = SettingsWindow_add_item (Some t) (Some d) st;
             new = \<lparr>title = JStr t, description = JStr d\<rparr>
         in shortcuts (heap st' (config st')) = ss @ [new] \<and>
            length (shortcuts (heap st' (config st'))) = Suc (length ss) \<and>
            rows (ov_tree (overlay (ShortcutOverlay_show st')))
              = map row_of ss @ [(JStr t, JStr d)] \<and>
            visible (ShortcutOverlay_show st')"
  using reachable_consistent [OF assms(1)] assms(2)
  by (simp add: consistent_def SettingsWindow_add_item_def SettingsWindow_refresh_def
      set_shortcuts_def ShortcutOverlay_show_def ShortcutOverlay_refresh_def visible_def
      Let_def tree_refresh_rows row_of_def)

lemma disk_overlay_toggle: "disk (ShortcutOverlay_toggle st) = disk st"
  by (simp add: ShortcutOverlay_toggle_def ShortcutOverlay_show_def ShortcutOverlay_hide_def
      ShortcutOverlay_refresh_def Let_def)

lemma disk_run_toggles: "disk (run_toggles cs st) = disk st"
  by (induction cs arbitrary: st) (simp_all add: ShortcutApp_toggle_def disk_overlay_toggle)

lemma disk_refresh_set_shortcuts:
  "disk (SettingsWindow_refresh (set_shortcuts ss st)) = disk st"
  by (simp add: SettingsWindow_refresh_def set_shortcuts_def Let_def)

lemma disk_add_item: "disk (SettingsWindow_add_item t d st) = disk st"
  by (simp add: SettingsWindow_add_item_def disk_refresh_set_shortcuts split: option.splits)

lemma disk_edit_item: "disk (snd (SettingsWindow_edit_item t d st)) = disk st"
  by (simp add: SettingsWindow_edit_item_def disk_refresh_set_shortcuts show_prompt_def Let_def
      split: option.splits list.splits)

lemma disk_remove_item: "disk (snd (SettingsWindow_remove_item st)) = disk st"
  by (simp add: SettingsWindow_remove_item_def disk_refresh_set_shortcuts show_prompt_def
      Let_def split: list.splits)

lemma save_effect:
  assumes "sw_config (settings_window st) = config st" and "strip entry \<noteq> []"
  shows "let c' = (heap st (config st))\<lparr>hotkey := JStr (strip entry)\<rparr>;
             out = fst (SettingsWindow_save parse entry st);
             st' = snd (SettingsWindow_save parse entry st)
         in heap st' = (heap st)(config st := c') \<and>
            config st' = config st \<and> config_manager st' = config_manager st \<and>
            (if dumpable (payload c')
             then disk st' = (disk st)(config_manager st \<mapsto> Encodes (payload c')) \<and>
                  hooks st' = (case parse (JStr (strip entry)) of None \<Rightarrow> [] | Some c \<Rightarrow> [c])
             else out = Raised UnicodeEncodeError \<and>
                  disk st' = (disk st)(config_manager st \<mapsto> Rejected JSONDecodeError) \<and>
                  hooks st' = hooks st)"
  using assms
  by (auto simp: SettingsWindow_save_def ShortcutApp_on_save_def ShortcutApp_register_hotkey_def
      ConfigManager_save_def unhook_all_def add_hotkey_def show_prompt_def Let_def
      split: option.splits)

lemma disk_handle_other:
  "\<forall>entry. e \<noteq> SavePressed entry \<Longrightarrow> disk (snd (handle parse e st)) = disk st"
  by (cases e)
    (simp_all add: disk_add_item disk_edit_item disk_remove_item select_rows_def
      ShortcutApp_open_settings_def SettingsWindow_refresh_def ShortcutApp_show_overlay_def
      ShortcutOverlay_show_def ShortcutOverlay_refresh_def ShortcutOverlay_hide_def
      disk_run_toggles ShortcutApp_on_close_def Let_def)

text \<open>
  C5. In every state of the running application, whatever the user does next either leaves
  the disk as it was, or is a save that did not complete (the dump raised and left an
  unfinished file), or writes, at the configuration path, the configuration now in memory,
  whose hotkey is a non-empty string; loading that file returns this configuration. So
  every completed save persists a non-empty hotkey.
\<close>

theorem saved_hotkey_nonempty:
  assumes "reachable parse st"
  shows "let out = fst (step parse e st); st' = snd (step parse e st)
         in disk st' = disk st \<or>
            (out = Raised UnicodeEncodeError \<and>
             \<not> dumpable (payload (heap st' (config st'))) \<and>
             disk st' = (disk st)(config_manager st \<mapsto> Rejected JSONDecodeError)) \<or>
            (\<exists>hk. hk \<noteq> [] \<and>
               hotkey (heap st' (config st')) = JStr hk \<and>
               disk st' = (disk st)(config_manager st \<mapsto>
                            Encodes (payload (heap st' (config st')))) \<and>
               ConfigManager_load (disk st') (config_manager st) = Inr (heap st' (config st')))"
proof (cases "destroyed st")
  case True
  then show ?thesis by (simp add: step_def)
next
  case False
  show ?thesis
  proof (cases "\<exists>entry. e = SavePressed entry \<and> strip entry \<noteq> []")
    case True
    then obtain entry where e: "e = SavePressed entry" and ne: "strip entry \<noteq> []" by blast
    from reachable_consistent [OF assms] have w: "sw_config (settings_window st) = config st"
      by (simp add: consistent_def)
    let ?c' = "(heap st (config st))\<lparr>hotkey := JStr (strip entry)\<rparr>"
    let ?out = "fst (SettingsWindow_save parse entry st)"
    let ?st' = "snd (SettingsWindow_save parse entry st)"
    from save_effect [OF w ne, of parse]
    have h: "heap ?st' = (heap st)(config st := ?c')"
      and c: "config ?st' = config st"
      and d: "if dumpable (payload ?c')
              then disk ?st' = (disk st)(config_manager st \<mapsto> Encodes (payload ?c'))
              else ?out = Raised UnicodeEncodeError \<and>
                   disk ?st' = (disk st)(config_manager st \<mapsto> Rejected JSONDecodeError)"
      by (simp_all add: Let_def split: if_splits)
    from h c have cur: "heap ?st' (config ?st') = ?c'" by simp
    from False e have st: "step parse e st = SettingsWindow_save parse entry st"
      by (simp add: step_def)
    show ?thesis
    proof (cases "dumpable (payload ?c')")
      case True
      with d have dk: "disk ?st' = (disk st)(config_manager st \<mapsto> Encodes (payload ?c'))"
        by simp
      then have "ConfigManager_load (disk ?st') (config_manager st) = Inr ?c'"
        by (simp add: ConfigManager_load_def load_data_payload)
      with ne dk cur st show ?thesis by (simp add: Let_def)
    next
      case False
      with d cur st show ?thesis by (simp add: Let_def)
    qed
  next
    case no_save: False
    show ?thesis
    proof (cases "\<exists>entry. e = SavePressed entry")
      case True
      with no_save obtain entry where "e = SavePressed entry" and "strip entry = []" by blast
      with False show ?thesis
        by (simp add: step_def SettingsWindow_save_def show_prompt_def)
    next
      case False
      then have "\<forall>entry. e \<noteq> SavePressed entry" by blast
      from disk_handle_other [OF this] \<open>\<not> destroyed st\<close> show ?thesis
        by (simp add: step_def)
    qed
  qed
qed

text \<open>
  C9. Registering the hotkey from any state of the keyboard library leaves exactly the
  new combination installed (none when the library rejects the text): all earlier hotkeys
  are released first. Afterwards any combination other than the new one, the old one
  included, triggers nothing, and the new one runs the toggle once. In every state of
  the running application at most one hotkey is installed, and a save with a non-empty
  hotkey leaves installed exactly the combination of the saved text; only a save whose
  dump raised, which never reaches the registration, leaves the installed hotkey as it was.
\<close>

theorem register_hotkey_single_binding:
  "(let st' = snd (ShortcutApp_register_hotkey parse st)
    in hooks st' = (case parse (hotkey (heap st (config st))) of None \<Rightarrow> [] | Some c \<Rightarrow> [c]) \<and>
       length (hooks st') \<le> 1 \<and>
       (\<forall>c. parse (hotkey (heap st (config st))) \<noteq> Some c \<longrightarrow>
            handle parse (KeysPressed c) st' = (Returned, st')) \<and>
       (\<forall>c. parse (hotkey (heap st (config st))) = Some c \<longrightarrow>
            handle parse (KeysPressed c) st' = (Returned, ShortcutApp_toggle st'))) \<and>
   (reachable parse st \<longrightarrow>
      length (hooks st) \<le> 1 \<and>
      (\<forall>entry. strip entry \<noteq> [] \<longrightarrow>
         hooks (snd (SettingsWindow_save parse entry st))
           = (if dumpable (payload ((heap st (config st))\<lparr>hotkey := JStr (strip entry)\<rparr>))
              then (case parse (JStr (strip entry)) of None \<Rightarrow> [] | Some c \<Rightarrow> [c])
              else hooks st)))"
proof -
  have reg: "hooks (snd (ShortcutApp_register_hotkey parse st))
      = (case parse (hotkey (heap st (config st))) of None \<Rightarrow> [] | Some c \<Rightarrow> [c])"
    by (rule register_hotkey_hooks)
  have first: "let st' = snd (ShortcutApp_register_hotkey parse st)
    in hooks st' = (case parse (hotkey (heap st (config st))) of None \<Rightarrow> [] | Some c \<Rightarrow> [c]) \<and>
       length (hooks st') \<le> 1 \<and>
       (\<forall>c. parse (hotkey (heap st (config st))) \<noteq> Some c \<longrightarrow>
            handle parse (KeysPressed c) st' = (Returned, st')) \<and>
       (\<forall>c. parse (hotkey (heap st (config st))) = Some c \<longrightarrow>
            handle parse (KeysPressed c) st' = (Returned, ShortcutApp_toggle st'))"
    using reg by (auto simp: Let_def split: option.splits)
  have second: "length (hooks st) \<le> 1 \<and>
      (\<forall>entry. strip entry \<noteq> [] \<longrightarrow>
         hooks (snd (SettingsWindow_save parse entry st))
           = (if dumpable (payload ((heap st (config st))\<lparr>hotkey := JStr (strip entry)\<rparr>))
              then (case parse (JStr (strip entry)) of None \<Rightarrow> [] | Some c \<Rightarrow> [c])
              else hooks st))"
    if r: "reachable parse st"
  proof -
    from reachable_consistent [OF r]
    have w: "sw_config (settings_window st) = config st" and l: "length (hooks st) \<le> 1"
      by (simp_all add: consistent_def)
    from save_effect [OF w, of _ parse] l show ?thesis by (simp add: Let_def)
  qed
  from first second show ?thesis by blast
qed

lemmas eval_defs = py_def utf8_encodable_def surrogate_def step_def SettingsWindow_save_def ShortcutApp_on_save_def
  ShortcutApp_register_hotkey_def ConfigManager_save_def unhook_all_def add_hotkey_def
  show_prompt_def Let_def sample_app_def sample_parser_def strip_def isspace_def
  payload_def item_payload_def SettingsWindow_remove_item_def SettingsWindow_add_item_def
  SettingsWindow_refresh_def set_shortcuts_def select_rows_def tree_refresh_def
  tree_delete_children_def tree_insert_end_def ShortcutOverlay_show_def
  ShortcutOverlay_refresh_def visible_def row_of_def

theorem saved_hotkey_nonempty_witness:
  "reachable sample_parser sample_app \<and>
   (let st' = snd (step sample_parser (SavePressed (py '' ctrl+alt+k  '')) sample_app)
    in hotkey (heap st' (config st')) = JStr (py ''ctrl+alt+k'') \<and>
       disk st' ''config.json''
         = Some (Encodes (JObj [(py ''hotkey'', JStr (py ''ctrl+alt+k'')),
              (py ''shortcuts'', JArr
                 [JObj [(py ''title'', JStr (py ''Win+E'')), (py ''description'', JStr (py ''Open File Explorer''))],
                  JObj [(py ''title'', JStr (py ''Win+L'')), (py ''description'', JStr (py ''Lock the PC''))]])])) \<and>
       ConfigManager_load (disk st') ''config.json'' = Inr (heap st' (config st')))"
proof -
  have ev: "disk (snd (step sample_parser (SavePressed (py '' ctrl+alt+k  '')) sample_app)) ''config.json''
         = Some (Encodes (JObj [(py ''hotkey'', JStr (py ''ctrl+alt+k'')),
              (py ''shortcuts'', JArr
                 [JObj [(py ''title'', JStr (py ''Win+E'')), (py ''description'', JStr (py ''Open File Explorer''))],
                  JObj [(py ''title'', JStr (py ''Win+L'')), (py ''description'', JStr (py ''Lock the PC''))]])]))"
    by (simp add: eval_defs)
  have d0: "disk sample_app ''config.json'' = None" by (simp add: sample_app_def)
  have cm: "config_manager sample_app = ''config.json''" by (simp add: sample_app_def)
  have hk: "hotkey (heap (snd (step sample_parser (SavePressed (py '' ctrl+alt+k  '')) sample_app))
      (config (snd (step sample_parser (SavePressed (py '' ctrl+alt+k  '')) sample_app)))) = JStr (py ''ctrl+alt+k'')"
    by (simp add: eval_defs)
  from ev d0 have ne: "disk (snd (step sample_parser (SavePressed (py '' ctrl+alt+k  '')) sample_app))
      \<noteq> disk sample_app" by auto
  have nr: "disk (snd (step sample_parser (SavePressed (py '' ctrl+alt+k  '')) sample_app))
      \<noteq> (disk sample_app)(''config.json'' \<mapsto> Rejected JSONDecodeError)"
  proof
    assume "disk (snd (step sample_parser (SavePressed (py '' ctrl+alt+k  '')) sample_app))
      = (disk sample_app)(''config.json'' \<mapsto> Rejected JSONDecodeError)"
    then have "disk (snd (step sample_parser (SavePressed (py '' ctrl+alt+k  '')) sample_app))
      ''config.json'' = Some (Rejected JSONDecodeError)" by simp
    with ev show False by simp
  qed
  from saved_hotkey_nonempty [OF sample_reachable, of "SavePressed (py '' ctrl+alt+k  '')"]
    ne nr cm
  have "ConfigManager_load (disk (snd (step sample_parser (SavePressed (py '' ctrl+alt+k  '')) sample_app)))
      ''config.json'' = Inr (heap (snd (step sample_parser (SavePressed (py '' ctrl+alt+k  '')) sample_app))
      (config (snd (step sample_parser (SavePressed (py '' ctrl+alt+k  '')) sample_app))))"
    by (auto simp: Let_def)
  with sample_reachable ev hk show ?thesis by (simp add: Let_def)
qed

theorem add_item_appends_witness:
  "reachable sample_parser sample_app \<and> (py ''Win+D'') \<noteq> [] \<and>
   (let st' = SettingsWindow_add_item (Some (py ''Win+D'')) (Some (py ''Show the desktop'')) sample_app
    in shortcuts (heap st' (config st'))
         = [\<lparr>title = JStr (py ''Win+E''), description = JStr (py ''Open File Explorer'')\<rparr>,
            \<lparr>title = JStr (py ''Win+L''), description = JStr (py ''Lock the PC'')\<rparr>,
            \<lparr>title = JStr (py ''Win+D''), description = JStr (py ''Show the desktop'')\<rparr>] \<and>
       rows (ov_tree (overlay (ShortcutOverlay_show st')))
         = [(JStr (py ''Win+E''), JStr (py ''Open File Explorer'')),
            (JStr (py ''Win+L''), JStr (py ''Lock the PC'')),
            (JStr (py ''Win+D''), JStr (py ''Show the desktop''))])"
proof -
  have ne: "(py ''Win+D'') \<noteq> []" by simp
  have ss: "shortcuts (heap sample_app (config sample_app))
      = [\<lparr>title = JStr (py ''Win+E''), description = JStr (py ''Open File Explorer'')\<rparr>,
         \<lparr>title = JStr (py ''Win+L''), description = JStr (py ''Lock the PC'')\<rparr>]"
    by (simp add: sample_app_def)
  from add_item_appends [OF sample_reachable ne, of "(py ''Show the desktop'')"] ss sample_reachable
  show ?thesis by (simp add: Let_def row_of_def)
qed

theorem remove_item_deletes_selected_witness:
  "(let st = select_rows [0] (snd (SettingsWindow_remove_item (select_rows [1] sample_app)))
    in selected (sw_tree (settings_window st)) = [0] \<and>
       shortcuts (heap st (sw_config (settings_window st)))
         = [\<lparr>title = JStr (py ''Win+E''), description = JStr (py ''Open File Explorer'')\<rparr>] \<and>
       fst (SettingsWindow_remove_item st) = Returned \<and>
       shortcuts (heap (snd (SettingsWindow_remove_item st)) (sw_config (settings_window st))) = [])"
proof -
  let ?st = "select_rows [0] (snd (SettingsWindow_remove_item (select_rows [1] sample_app)))"
  have sel: "selected (sw_tree (settings_window ?st)) = [0]"
    by (simp add: eval_defs)
  have ss: "shortcuts (heap ?st (sw_config (settings_window ?st)))
         = [\<lparr>title = JStr (py ''Win+E''), description = JStr (py ''Open File Explorer'')\<rparr>]"
    by (simp add: eval_defs)
  from ss have valid: "0 < length (shortcuts (heap ?st (sw_config (settings_window ?st))))"
    by simp
  from remove_item_deletes_selected [OF sel valid] ss sel show ?thesis
    by (simp add: Let_def)
qed

theorem register_hotkey_single_binding_witness:
  "reachable sample_parser sample_app \<and>
   hooks sample_app = [[[[29], [42], [31]]]] \<and>
   strip (py ''ctrl+alt+k'') \<noteq> [] \<and>
   hooks (snd (SettingsWindow_save sample_parser (py ''ctrl+alt+k'') sample_app))
     = [[[[29], [56], [37]]]] \<and>
   hooks (snd (ShortcutApp_register_hotkey sample_parser
            (sample_app\<lparr>hooks := [[[[1]]], [[[2]]], [[[3]]]]\<rparr>)))
     = [[[[29], [42], [31]]]]"
proof -
  have s: "strip (py ''ctrl+alt+k'') = py ''ctrl+alt+k''"
    by (simp add: py_def strip_def isspace_def)
  have h: "hooks sample_app = [[[[29], [42], [31]]]]" by (simp add: sample_app_def)
  have dp: "dumpable (payload ((heap sample_app (config sample_app))
      \<lparr>hotkey := JStr (py ''ctrl+alt+k'')\<rparr>))"
    by (simp add: sample_app_def payload_def item_payload_def)
  from register_hotkey_single_binding [of sample_parser sample_app] sample_reachable s dp
  have a: "hooks (snd (SettingsWindow_save sample_parser (py ''ctrl+alt+k'') sample_app))
     = [[[[29], [56], [37]]]]"
    by (simp add: sample_parser_def)
  from register_hotkey_single_binding
    [of sample_parser "sample_app\<lparr>hooks := [[[[1]]], [[[2]]], [[[3]]]]\<rparr>"]
  have b: "hooks (snd (ShortcutApp_register_hotkey sample_parser
            (sample_app\<lparr>hooks := [[[[1]]], [[[2]]], [[[3]]]]\<rparr>)))
     = [[[[29], [42], [31]]]]"
    by (simp add: Let_def sample_parser_def sample_app_def)
  from sample_reachable h s a b show ?thesis by simp
qed

end
